theory Spec2Isabelle
  imports Main
begin

section \<open>Values of net/http seen by the adapter\<close>

text \<open>
  A Go \<^verbatim>\<open>error\<close> is a value with a textual message; the nil error is \<open>None\<close> of
  \<open>error option\<close>. \<open>Error\<close> is the method \<^verbatim>\<open>err.Error()\<close>.
\<close>

datatype error = ErrorString string

primrec Error :: "error \<Rightarrow> string" where
  "Error (ErrorString msg) = msg"

text \<open>
  A request carries its method, its path and its context value. The field \<open>Context\<close>
  is \<^verbatim>\<open>r.Context()\<close>; a context is the list of the values attached to it.
\<close>

type_synonym ctx = "(string \<times> string) list"

record request =
  Method_of :: string
  Path :: string
  Context :: ctx

text \<open>
  A \<^verbatim>\<open>http.ResponseWriter\<close> is a reference (an address) to a writer; the state of a writer
  is the sequence of calls made on it so far. \<open>status_of\<close> and \<open>body_of\<close> read that
  sequence the way \<^verbatim>\<open>httptest.ResponseRecorder\<close> does: the first \<^verbatim>\<open>WriteHeader\<close> fixes the
  status, a \<^verbatim>\<open>Write\<close> before any \<^verbatim>\<open>WriteHeader\<close> fixes it to 200, and the body is the
  concatenation of what was written.
\<close>

datatype wcall =
    HeaderSet string string
  | HeaderDel string
  | WriteHeader nat
  | Write string

fun status_of :: "wcall list \<Rightarrow> nat" where
  "status_of [] = 200"
| "status_of (WriteHeader code # cs) = code"
| "status_of (Write b # cs) = 200"
| "status_of (c # cs) = status_of cs"

fun body_of :: "wcall list \<Rightarrow> string" where
  "body_of [] = []"
| "body_of (Write b # cs) = b @ body_of cs"
| "body_of (c # cs) = body_of cs"

text \<open>
  The state a request runs in: the writers, the variables that closures of this package
  capture (\<open>locals\<close>, allocated at \<open>fresh\<close>), and whatever state the application keeps
  (\<open>app\<close>).
\<close>

record 'a world =
  writers :: "nat \<Rightarrow> wcall list"
  locals :: "nat \<Rightarrow> error option"
  fresh :: nat
  app :: 'a

definition call_writer :: "nat \<Rightarrow> wcall list \<Rightarrow> 'a world \<Rightarrow> 'a world" where
  "call_writer w cs s = s\<lparr>writers := (writers s)(w := writers s w @ cs)\<rparr>"

text \<open>
  Modelled from the spec: \<^verbatim>\<open>http.Error(w, msg, code)\<close> belongs to the standard library
  and is not part of the repository (the spec: the body is the message followed by a
  newline, under the given status). As the library documents it, it deletes the
  Content-Length header, sets Content-Type to plain text and X-Content-Type-Options to
  nosniff, writes the header with \<open>code\<close> and prints \<open>msg\<close> followed by a newline.
\<close>

definition http_Error :: "nat \<Rightarrow> string \<Rightarrow> nat \<Rightarrow> 'a world \<Rightarrow> 'a world" where
  "http_Error w msg code =
     call_writer w
       [HeaderDel ''Content-Length'',
        HeaderSet ''Content-Type'' ''text/plain; charset=utf-8'',
        HeaderSet ''X-Content-Type-Options'' ''nosniff'',
        WriteHeader code,
        Write (msg @ [CHR 0x0A])]"

definition StatusInternalServerError :: nat where
  "StatusInternalServerError = 500"

section \<open>Handler shapes (chu.go)\<close>

text \<open>
  \<^verbatim>\<open>type Handler func(ctx context.Context, w http.ResponseWriter, r *http.Request) error\<close>
  and \<^verbatim>\<open>type ErrorHandler func(w http.ResponseWriter, r *http.Request, err error)\<close>: functions
  that change the state of the request; a Handler also returns its error. A
  \<^verbatim>\<open>http.HandlerFunc\<close> returns nothing. These are the functions the application
  supplies: they see the request's state and not the routers, whose fields are
  unexported. ErrorHandlers are taken to be non-nil functions.
\<close>

type_synonym 'a Handler = "ctx \<Rightarrow> nat \<Rightarrow> request \<Rightarrow> 'a world \<Rightarrow> error option \<times> 'a world"

type_synonym 'a ErrorHandler = "nat \<Rightarrow> request \<Rightarrow> error \<Rightarrow> 'a world \<Rightarrow> 'a world"

type_synonym 'a HandlerFunc = "nat \<Rightarrow> request \<Rightarrow> 'a world \<Rightarrow> 'a world"

section \<open>options.go: the default ErrorHandler\<close>

definition defaultErrorHandler :: "'a ErrorHandler" where
  "defaultErrorHandler w r err = http_Error w (Error err) StatusInternalServerError"

section \<open>adapter.go\<close>

text \<open>
  \<^verbatim>\<open>AdaptHandler(h, errHandler)\<close> returns the closure
  \<^verbatim>\<open>func(w, r) { if err := h(r.Context(), w, r); err != nil { errHandler(w, r, err) } }\<close>.
\<close>

definition AdaptHandler :: "'a Handler \<Rightarrow> 'a ErrorHandler \<Rightarrow> 'a HandlerFunc" where
  "AdaptHandler h errHandler =
     (\<lambda>w r s. case h (Context r) w r s of
                 (None, s') \<Rightarrow> s'
               | (Some err, s') \<Rightarrow> errHandler w r err s')"

text \<open>
  \<^verbatim>\<open>StandardHandler(h)\<close> returns \<^verbatim>\<open>func(ctx, w, r) error { h(w, r); return nil }\<close>.
\<close>

definition StandardHandler :: "'a HandlerFunc \<Rightarrow> 'a Handler" where
  "StandardHandler h = (\<lambda>ctx w r s. (None, h w r s))"

text \<open>
  \<^verbatim>\<open>AdaptMiddleware(stdMiddleware)\<close>: the returned Handler declares \<^verbatim>\<open>var err error\<close>, a
  fresh variable holding nil, hands \<open>stdMiddleware\<close> a closure that assigns to it
  (\<^verbatim>\<open>err = next(r.Context(), w, r)\<close>), serves the request through the result and returns the
  variable's content.
\<close>

definition AdaptMiddleware ::
  "('a HandlerFunc \<Rightarrow> 'a HandlerFunc) \<Rightarrow> ('a Handler \<Rightarrow> 'a Handler)" where
  "AdaptMiddleware stdMiddleware =
     (\<lambda>next ctx w r s.
        let err = fresh s;
            s1 = s\<lparr>locals := (locals s)(err := None), fresh := Suc err\<rparr>;
            s2 = stdMiddleware
                   (\<lambda>w r t. case next (Context r) w r t of
                               (e, t') \<Rightarrow> t'\<lparr>locals := (locals t')(err := e)\<rparr>)
                   w r s1
        in (locals s2 err, s2))"

text \<open>
  What a conventional middleware \<^verbatim>\<open>func(next http.Handler) http.Handler\<close> does with one
  request, step by step: it returns, it does something of its own (\<open>Own\<close>: it has no
  access to the variables captured by closures of this package), it calls
  \<^verbatim>\<open>next.ServeHTTP\<close> with a writer and a request of its choice (\<open>CallNext\<close>), or it
  branches on what it sees (\<open>Branch\<close>). \<open>run_std\<close> is the middleware such a body
  denotes.
\<close>

datatype 'a std_body =
    Return
  | Own "nat \<Rightarrow> request \<Rightarrow> 'a world \<Rightarrow> 'a world" "'a std_body"
  | CallNext "nat \<Rightarrow> request \<Rightarrow> 'a world \<Rightarrow> nat \<times> request" "'a std_body"
  | Branch "nat \<Rightarrow> request \<Rightarrow> 'a world \<Rightarrow> bool" "'a std_body" "'a std_body"

definition own :: "('a world \<Rightarrow> 'a world) \<Rightarrow> 'a world \<Rightarrow> 'a world" where
  "own f s = (f s)\<lparr>locals := locals s, fresh := fresh s\<rparr>"

fun run_std :: "'a std_body \<Rightarrow> 'a HandlerFunc \<Rightarrow> 'a HandlerFunc" where
  "run_std Return next w r s = s"
| "run_std (Own f body) next w r s = run_std body next w r (own (f w r) s)"
| "run_std (CallNext arg body) next w r s =
     (case arg w r s of (w', r') \<Rightarrow> run_std body next w r (next w' r' s))"
| "run_std (Branch c body1 body2) next w r s =
     (if c w r s then run_std body1 next w r s else run_std body2 next w r s)"

text \<open>
  The invocations of \<open>next\<close> during such a run, in order: the writer, the request and
  the state each invocation starts in.
\<close>

fun invocations ::
  "'a std_body \<Rightarrow> 'a HandlerFunc \<Rightarrow> nat \<Rightarrow> request \<Rightarrow> 'a world \<Rightarrow> (nat \<times> request \<times> 'a world) list" where
  "invocations Return next w r s = []"
| "invocations (Own f body) next w r s = invocations body next w r (own (f w r) s)"
| "invocations (CallNext arg body) next w r s =
     (case arg w r s of (w', r') \<Rightarrow> (w', r', s) # invocations body next w r (next w' r' s))"
| "invocations (Branch c body1 body2) next w r s =
     (if c w r s then invocations body1 next w r s else invocations body2 next w r s)"

definition assigning :: "nat \<Rightarrow> 'a Handler \<Rightarrow> 'a HandlerFunc" where
  "assigning err next =
     (\<lambda>w r t. case next (Context r) w r t of (e, t') \<Rightarrow> t'\<lparr>locals := (locals t')(err := e)\<rparr>)"

definition last_result :: "'a Handler \<Rightarrow> (nat \<times> request \<times> 'a world) list \<Rightarrow> error option" where
  "last_result next calls =
     (case rev calls of [] \<Rightarrow> None | (w, r, s) # _ \<Rightarrow> fst (next (Context r) w r s))"

section \<open>The underlying router (github.com/go-chi/chi/v5)\<close>

text \<open>
  Modelled from the spec: the router library is an external collaborator and is not part
  of the repository; the model keeps what the wrapper delegates to it. A handler held by
  the router may be a closure of this package that captured a \<^verbatim>\<open>*Router\<close> and reads its \<^verbatim>\<open>errHandler\<close> field when it runs: its first
  argument is the content of that field for every router address at the time of the
  request. A mux holds its middleware links in registration order, its routes (the
  latest registration first, so that a lookup finds the latest one for a method and a
  pattern), what was mounted, and the two fallback handlers.
\<close>

type_synonym 'a http_Handler = "(nat \<Rightarrow> 'a ErrorHandler) \<Rightarrow> 'a HandlerFunc"

datatype 'a mounted = SubRouter nat | SubHandler "'a http_Handler"

record 'a Mux =
  middlewares :: "('a http_Handler \<Rightarrow> 'a http_Handler) list"
  routes :: "(string \<times> string \<times> 'a http_Handler) list"
  mounts :: "(string \<times> 'a mounted) list"
  notFoundHandler :: "'a http_Handler option"
  methodNotAllowedHandler :: "'a http_Handler option"

record 'a chi_store =
  mux :: "nat \<Rightarrow> 'a Mux"
  next_mux :: nat

definition on_mux :: "nat \<Rightarrow> ('a Mux \<Rightarrow> 'a Mux) \<Rightarrow> 'a chi_store \<Rightarrow> 'a chi_store" where
  "on_mux c f cs = cs\<lparr>mux := (mux cs)(c := f (mux cs c))\<rparr>"

definition chi_NewRouter :: "'a chi_store \<Rightarrow> nat \<times> 'a chi_store" where
  "chi_NewRouter cs =
     (next_mux cs,
      cs\<lparr>mux := (mux cs)(next_mux cs :=
             \<lparr>middlewares = [], routes = [], mounts = [],
              notFoundHandler = None, methodNotAllowedHandler = None\<rparr>),
         next_mux := Suc (next_mux cs)\<rparr>)"

definition chi_Use ::
  "nat \<Rightarrow> ('a http_Handler \<Rightarrow> 'a http_Handler) list \<Rightarrow> 'a chi_store \<Rightarrow> 'a chi_store" where
  "chi_Use c ms = on_mux c (\<lambda>m. m\<lparr>middlewares := middlewares m @ ms\<rparr>)"

definition chi_Method ::
  "nat \<Rightarrow> string \<Rightarrow> string \<Rightarrow> 'a http_Handler \<Rightarrow> 'a chi_store \<Rightarrow> 'a chi_store" where
  "chi_Method c method pattern h = on_mux c (\<lambda>m. m\<lparr>routes := (method, pattern, h) # routes m\<rparr>)"

definition chi_Mount :: "nat \<Rightarrow> string \<Rightarrow> 'a mounted \<Rightarrow> 'a chi_store \<Rightarrow> 'a chi_store" where
  "chi_Mount c pattern h = on_mux c (\<lambda>m. m\<lparr>mounts := mounts m @ [(pattern, h)]\<rparr>)"

definition chi_NotFound :: "nat \<Rightarrow> 'a http_Handler \<Rightarrow> 'a chi_store \<Rightarrow> 'a chi_store" where
  "chi_NotFound c h = on_mux c (\<lambda>m. m\<lparr>notFoundHandler := Some h\<rparr>)"

definition chi_MethodNotAllowed :: "nat \<Rightarrow> 'a http_Handler \<Rightarrow> 'a chi_store \<Rightarrow> 'a chi_store" where
  "chi_MethodNotAllowed c h = on_mux c (\<lambda>m. m\<lparr>methodNotAllowedHandler := Some h\<rparr>)"

text \<open>
  Modelled from the spec: the router library's chaining of middleware links is not part
  of the repository (the spec: links execute in the order registered, each wrapping the
  next, the first registered outermost). The last link is applied to the endpoint
  first, then each earlier link to the result.
\<close>

fun chi_chain ::
  "('a http_Handler \<Rightarrow> 'a http_Handler) list \<Rightarrow> 'a http_Handler \<Rightarrow> 'a http_Handler" where
  "chi_chain [] endpoint = endpoint"
| "chi_chain (m # ms) endpoint = m (chi_chain ms endpoint)"

text \<open>
  Modelled from the spec: the router library's dispatch is not part of the repository.
  Inside one mux, for literal patterns: the route registered for the request's
  method and path; failing that, the method-not-allowed handler when the path is
  registered for another method (status 405 by default); failing that, the not-found
  handler (by default \<^verbatim>\<open>http.NotFound\<close>). Parameter and wildcard patterns, and the
  routing of a path into a mounted router, are the router library's business and are
  not part of this model.
\<close>

definition routeHTTP :: "'a Mux \<Rightarrow> 'a http_Handler" where
  "routeHTTP m =
     (\<lambda>eh w r s.
        case find (\<lambda>(method, pattern, h). method = Method_of r \<and> pattern = Path r) (routes m) of
          Some (method, pattern, h) \<Rightarrow> h eh w r s
        | None \<Rightarrow>
            (if Path r \<in> set (map (\<lambda>(method, pattern, h). pattern) (routes m))
             then (case methodNotAllowedHandler m of
                     Some h \<Rightarrow> h eh w r s
                   | None \<Rightarrow> call_writer w [WriteHeader 405] s)
             else (case notFoundHandler m of
                     Some h \<Rightarrow> h eh w r s
                   | None \<Rightarrow> http_Error w ''404 page not found'' 404 s)))"

definition chi_ServeHTTP :: "'a Mux \<Rightarrow> 'a http_Handler" where
  "chi_ServeHTTP m = chi_chain (middlewares m) (routeHTTP m)"

section \<open>The router wrapper (chu.go, options.go and the per-method registrations)\<close>

text \<open>
  \<^verbatim>\<open>type Router struct { chi chi.Router; errHandler ErrorHandler; routerBuilder func() chi.Router }\<close>.
  The \<^verbatim>\<open>chi\<close> field is a reference to a mux of the router library, or nil; the
  \<^verbatim>\<open>routerBuilder\<close> field is a function that makes the library create a router, or nil.
  Routers live on a heap and are handled through their addresses (\<^verbatim>\<open>*Router\<close>).
\<close>

type_synonym 'a builder = "'a chi_store \<Rightarrow> nat \<times> 'a chi_store"

record 'a Router =
  chi :: "nat option"
  errHandler :: "'a ErrorHandler"
  routerBuilder :: "'a builder option"

record 'a heap =
  routers :: "nat \<Rightarrow> 'a Router"
  next_router :: nat
  chi_heap :: "'a chi_store"

text \<open>
  What stops a call: the call of a nil function value, a method call through a nil
  \<^verbatim>\<open>chi\<close> field, and the router library's refusal to mount a nil handler.
\<close>

datatype panic = NilFunctionCall | NilRouterCall | MountNilHandler

definition errHandlers :: "'a heap \<Rightarrow> nat \<Rightarrow> 'a ErrorHandler" where
  "errHandlers st = (\<lambda>r. errHandler (routers st r))"

definition defaultRouterBuilder :: "'a builder" where
  "defaultRouterBuilder = chi_NewRouter"

text \<open>
  \<^verbatim>\<open>type Option func(*Router)\<close>: an option receives the address of the router being built
  and may do with it whatever a function may.
\<close>

type_synonym 'a Option = "nat \<Rightarrow> 'a heap \<Rightarrow> panic + 'a heap"

definition WithErrorHandler :: "'a ErrorHandler \<Rightarrow> 'a Option" where
  "WithErrorHandler handler =
     (\<lambda>r st. Inr (st\<lparr>routers := (routers st)(r := (routers st r)\<lparr>errHandler := handler\<rparr>)\<rparr>))"

definition WithRouterBuilder :: "'a builder option \<Rightarrow> 'a Option" where
  "WithRouterBuilder builder =
     (\<lambda>r st. Inr (st\<lparr>routers := (routers st)(r := (routers st r)\<lparr>routerBuilder := builder\<rparr>)\<rparr>))"

text \<open>The loop \<^verbatim>\<open>for _, opt := range opts { opt(r) }\<close> of \<^verbatim>\<open>New\<close>.\<close>

fun apply_opts :: "'a Option list \<Rightarrow> nat \<Rightarrow> 'a heap \<Rightarrow> panic + 'a heap" where
  "apply_opts [] r st = Inr st"
| "apply_opts (opt # opts) r st =
     (case opt r st of Inl p \<Rightarrow> Inl p | Inr st' \<Rightarrow> apply_opts opts r st')"

definition New :: "'a Option list \<Rightarrow> 'a heap \<Rightarrow> panic + (nat \<times> 'a heap)" where
  "New opts st =
     (let r = next_router st;
          st0 = st\<lparr>routers := (routers st)(r :=
                       \<lparr>chi = None, errHandler = defaultErrorHandler,
                        routerBuilder = Some defaultRouterBuilder\<rparr>),
                   next_router := Suc r\<rparr>
      in case apply_opts opts r st0 of
           Inl p \<Rightarrow> Inl p
         | Inr st1 \<Rightarrow>
             (case routerBuilder (routers st1 r) of
                None \<Rightarrow> Inl NilFunctionCall
              | Some b \<Rightarrow>
                  (case b (chi_heap st1) of
                     (c, cs) \<Rightarrow>
                       Inr (r, st1\<lparr>routers := (routers st1)(r := (routers st1 r)\<lparr>chi := Some c\<rparr>),
                                   chi_heap := cs\<rparr>))))"

definition ServeHTTP :: "nat \<Rightarrow> nat \<Rightarrow> request \<Rightarrow> 'a heap \<Rightarrow> 'a world \<Rightarrow> panic + 'a world" where
  "ServeHTTP r w req st s =
     (case chi (routers st r) of
        None \<Rightarrow> Inl NilRouterCall
      | Some c \<Rightarrow> Inr (chi_ServeHTTP (mux (chi_heap st) c) (errHandlers st) w req s))"

definition SetErrorHandler :: "nat \<Rightarrow> 'a ErrorHandler \<Rightarrow> 'a heap \<Rightarrow> 'a heap" where
  "SetErrorHandler r handler st =
     st\<lparr>routers := (routers st)(r := (routers st r)\<lparr>errHandler := handler\<rparr>)\<rparr>"

text \<open>
  \<^verbatim>\<open>r.adapt(h)\<close> returns a closure over the pointer \<open>r\<close> and over \<open>h\<close>; the closure reads
  \<^verbatim>\<open>r.errHandler\<close> when it runs:
  \<^verbatim>\<open>func(w, req) { if err := h(req.Context(), w, req); err != nil { r.errHandler(w, req, err) } }\<close>.
\<close>

definition adapt :: "nat \<Rightarrow> 'a Handler \<Rightarrow> 'a http_Handler" where
  "adapt r h =
     (\<lambda>eh w req s. case h (Context req) w req s of
                     (None, s') \<Rightarrow> s'
                   | (Some err, s') \<Rightarrow> eh r w req err s')"

text \<open>A call \<^verbatim>\<open>r.chi.M(...)\<close> of a method of the underlying router.\<close>

definition on_chi ::
  "nat \<Rightarrow> (nat \<Rightarrow> 'a chi_store \<Rightarrow> 'a chi_store) \<Rightarrow> 'a heap \<Rightarrow> panic + 'a heap" where
  "on_chi r f st =
     (case chi (routers st r) of
        None \<Rightarrow> Inl NilRouterCall
      | Some c \<Rightarrow> Inr (st\<lparr>chi_heap := f c (chi_heap st)\<rparr>))"

text \<open>
  \<^verbatim>\<open>Group\<close> and \<^verbatim>\<open>Route\<close> build the sub-router from a struct literal that names the
  \<^verbatim>\<open>chi\<close> and \<^verbatim>\<open>errHandler\<close> fields only, so its \<^verbatim>\<open>routerBuilder\<close> is nil; they run the
  callback on it and mount its mux into the parent's.
\<close>

definition Group ::
  "nat \<Rightarrow> (nat \<Rightarrow> 'a heap \<Rightarrow> panic + 'a heap) \<Rightarrow> 'a heap \<Rightarrow> panic + (nat \<times> 'a heap)" where
  "Group r fn st =
     (case routerBuilder (routers st r) of
        None \<Rightarrow> Inl NilFunctionCall
      | Some b \<Rightarrow>
          (case b (chi_heap st) of
             (c, cs) \<Rightarrow>
               (let subRouter = next_router st;
                    st1 = st\<lparr>routers := (routers st)(subRouter :=
                                 \<lparr>chi = Some c, errHandler = errHandler (routers st r),
                                  routerBuilder = None\<rparr>),
                             next_router := Suc subRouter,
                             chi_heap := cs\<rparr>
                in case fn subRouter st1 of
                     Inl p \<Rightarrow> Inl p
                   | Inr st2 \<Rightarrow>
                       (case chi (routers st2 r) of
                          None \<Rightarrow> Inl NilRouterCall
                        | Some pc \<Rightarrow>
                            (case chi (routers st2 subRouter) of
                               None \<Rightarrow> Inl MountNilHandler
                             | Some sc \<Rightarrow>
                                 Inr (subRouter,
                                      st2\<lparr>chi_heap :=
                                            chi_Mount pc ''/'' (SubRouter sc) (chi_heap st2)\<rparr>))))))"

definition Route ::
  "nat \<Rightarrow> string \<Rightarrow> (nat \<Rightarrow> 'a heap \<Rightarrow> panic + 'a heap) \<Rightarrow> 'a heap \<Rightarrow> panic + 'a heap" where
  "Route r pattern fn st =
     (case routerBuilder (routers st r) of
        None \<Rightarrow> Inl NilFunctionCall
      | Some b \<Rightarrow>
          (case b (chi_heap st) of
             (c, cs) \<Rightarrow>
               (let subRouter = next_router st;
                    st1 = st\<lparr>routers := (routers st)(subRouter :=
                                 \<lparr>chi = Some c, errHandler = errHandler (routers st r),
                                  routerBuilder = None\<rparr>),
                             next_router := Suc subRouter,
                             chi_heap := cs\<rparr>
                in case fn subRouter st1 of
                     Inl p \<Rightarrow> Inl p
                   | Inr st2 \<Rightarrow>
                       (case chi (routers st2 r) of
                          None \<Rightarrow> Inl NilRouterCall
                        | Some pc \<Rightarrow>
                            (case chi (routers st2 subRouter) of
                               None \<Rightarrow> Inl MountNilHandler
                             | Some sc \<Rightarrow>
                                 Inr (st2\<lparr>chi_heap :=
                                            chi_Mount pc pattern (SubRouter sc) (chi_heap st2)\<rparr>))))))"

definition Mount :: "nat \<Rightarrow> string \<Rightarrow> 'a http_Handler \<Rightarrow> 'a heap \<Rightarrow> panic + 'a heap" where
  "Mount r pattern h = on_chi r (\<lambda>c. chi_Mount c pattern (SubHandler h))"

text \<open>
  \<^verbatim>\<open>Use\<close> wraps each middleware into a link for the underlying router. The link, given
  the next handler of the chain, returns a closure that applies the middleware to a
  Handler forwarding to \<open>next\<close> and returning nil, runs the result, and on an error
  calls \<^verbatim>\<open>r.errHandler\<close>, read at that moment. Each iteration of the loop has its own
  \<^verbatim>\<open>middleware\<close> variable (the per-iteration loop variables of Go 1.22 and later), so
  the link built at index \<open>i\<close> holds the middleware at index \<open>i\<close>.
\<close>

definition wrappedMiddleware ::
  "nat \<Rightarrow> ('a Handler \<Rightarrow> 'a Handler) \<Rightarrow> ('a http_Handler \<Rightarrow> 'a http_Handler)" where
  "wrappedMiddleware r middleware =
     (\<lambda>next eh w req s.
        let wrappedHandler = middleware (\<lambda>ctx w r s. (None, next eh w r s))
        in case wrappedHandler (Context req) w req s of
             (None, s') \<Rightarrow> s'
           | (Some err, s') \<Rightarrow> eh r w req err s')"

definition Use :: "nat \<Rightarrow> ('a Handler \<Rightarrow> 'a Handler) list \<Rightarrow> 'a heap \<Rightarrow> panic + 'a heap" where
  "Use r middlewares_arg =
     on_chi r (\<lambda>c. chi_Use c (map (wrappedMiddleware r) middlewares_arg))"

definition NotFound :: "nat \<Rightarrow> 'a Handler \<Rightarrow> 'a heap \<Rightarrow> panic + 'a heap" where
  "NotFound r h = on_chi r (\<lambda>c. chi_NotFound c (adapt r h))"

definition MethodNotAllowed :: "nat \<Rightarrow> 'a Handler \<Rightarrow> 'a heap \<Rightarrow> panic + 'a heap" where
  "MethodNotAllowed r h = on_chi r (\<lambda>c. chi_MethodNotAllowed c (adapt r h))"

definition Method :: "nat \<Rightarrow> string \<Rightarrow> string \<Rightarrow> 'a Handler \<Rightarrow> 'a heap \<Rightarrow> panic + 'a heap" where
  "Method r method pattern h = on_chi r (\<lambda>c. chi_Method c method pattern (adapt r h))"

definition Get :: "nat \<Rightarrow> string \<Rightarrow> 'a Handler \<Rightarrow> 'a heap \<Rightarrow> panic + 'a heap" where
  "Get r pattern h = on_chi r (\<lambda>c. chi_Method c ''GET'' pattern (adapt r h))"

definition Post :: "nat \<Rightarrow> string \<Rightarrow> 'a Handler \<Rightarrow> 'a heap \<Rightarrow> panic + 'a heap" where
  "Post r pattern h = on_chi r (\<lambda>c. chi_Method c ''POST'' pattern (adapt r h))"

definition Put :: "nat \<Rightarrow> string \<Rightarrow> 'a Handler \<Rightarrow> 'a heap \<Rightarrow> panic + 'a heap" where
  "Put r pattern h = on_chi r (\<lambda>c. chi_Method c ''PUT'' pattern (adapt r h))"

definition Delete :: "nat \<Rightarrow> string \<Rightarrow> 'a Handler \<Rightarrow> 'a heap \<Rightarrow> panic + 'a heap" where
  "Delete r pattern h = on_chi r (\<lambda>c. chi_Method c ''DELETE'' pattern (adapt r h))"

definition Patch :: "nat \<Rightarrow> string \<Rightarrow> 'a Handler \<Rightarrow> 'a heap \<Rightarrow> panic + 'a heap" where
  "Patch r pattern h = on_chi r (\<lambda>c. chi_Method c ''PATCH'' pattern (adapt r h))"

definition Head :: "nat \<Rightarrow> string \<Rightarrow> 'a Handler \<Rightarrow> 'a heap \<Rightarrow> panic + 'a heap" where
  "Head r pattern h = on_chi r (\<lambda>c. chi_Method c ''HEAD'' pattern (adapt r h))"

definition Options :: "nat \<Rightarrow> string \<Rightarrow> 'a Handler \<Rightarrow> 'a heap \<Rightarrow> panic + 'a heap" where
  "Options r pattern h = on_chi r (\<lambda>c. chi_Method c ''OPTIONS'' pattern (adapt r h))"

definition Connect :: "nat \<Rightarrow> string \<Rightarrow> 'a Handler \<Rightarrow> 'a heap \<Rightarrow> panic + 'a heap" where
  "Connect r pattern h = on_chi r (\<lambda>c. chi_Method c ''CONNECT'' pattern (adapt r h))"

definition Trace :: "nat \<Rightarrow> string \<Rightarrow> 'a Handler \<Rightarrow> 'a heap \<Rightarrow> panic + 'a heap" where
  "Trace r pattern h = on_chi r (\<lambda>c. chi_Method c ''TRACE'' pattern (adapt r h))"

section \<open>Notions used to state the properties\<close>

text \<open>
  A middleware with pre-logic and post-logic around its call of \<open>next\<close>:
  \<^verbatim>\<open>func(next) { return func(ctx, w, r) error { pre; err := next(ctx, w, r); post; return err } }\<close>.
\<close>

definition around :: "'a HandlerFunc \<Rightarrow> 'a HandlerFunc \<Rightarrow> ('a Handler \<Rightarrow> 'a Handler)" where
  "around pre post =
     (\<lambda>next ctx w r s. case next ctx w r (pre w r s) of (e, s') \<Rightarrow> (e, post w r s'))"

text \<open>
  Nested decorators as the spec words them: the first pair is outermost, its pre-logic
  runs first and its post-logic runs last.
\<close>

fun nested :: "('a HandlerFunc \<times> 'a HandlerFunc) list \<Rightarrow> 'a HandlerFunc \<Rightarrow> 'a HandlerFunc" where
  "nested [] endpoint w r s = endpoint w r s"
| "nested ((pre, post) # ps) endpoint w r s = post w r (nested ps endpoint w r (pre w r s))"

text \<open>
  A sequence of the two named options, and the builder and the handler that the last
  option of each kind names (the given default when there is none).
\<close>

definition named_option :: "'a ErrorHandler + 'a builder option \<Rightarrow> 'a Option" where
  "named_option x =
     (case x of Inl handler \<Rightarrow> WithErrorHandler handler | Inr b \<Rightarrow> WithRouterBuilder b)"

fun last_builder ::
  "('a ErrorHandler + 'a builder option) list \<Rightarrow> 'a builder option \<Rightarrow> 'a builder option" where
  "last_builder [] b = b"
| "last_builder (Inl handler # xs) b = last_builder xs b"
| "last_builder (Inr b' # xs) b = last_builder xs b'"

fun last_handler ::
  "('a ErrorHandler + 'a builder option) list \<Rightarrow> 'a ErrorHandler \<Rightarrow> 'a ErrorHandler" where
  "last_handler [] h = h"
| "last_handler (Inl h' # xs) h = last_handler xs h'"
| "last_handler (Inr b # xs) h = last_handler xs h"

text \<open>A call of \<^verbatim>\<open>Group\<close> as a statement: the returned sub-router is dropped.\<close>

definition discard :: "panic + (nat \<times> 'a heap) \<Rightarrow> panic + 'a heap" where
  "discard x = (case x of Inl p \<Rightarrow> Inl p | Inr (sub, st) \<Rightarrow> Inr st)"

text \<open>The status and the body that a recorder at \<open>w\<close> shows after a request.\<close>

definition response_on :: "nat \<Rightarrow> panic + 'a world \<Rightarrow> (nat \<times> string) option" where
  "response_on w x =
     (case x of
        Inl p \<Rightarrow> None
      | Inr s \<Rightarrow> Some (status_of (writers s w), body_of (writers s w)))"

section \<open>Concrete inputs\<close>

definition empty_world :: "unit world" where
  "empty_world = \<lparr>writers = (\<lambda>w. []), locals = (\<lambda>a. None), fresh = 0, app = ()\<rparr>"

definition empty_heap :: "unit heap" where
  "empty_heap =
     \<lparr>routers = (\<lambda>a. \<lparr>chi = None, errHandler = defaultErrorHandler, routerBuilder = None\<rparr>),
      next_router = 0,
      chi_heap =
        \<lparr>mux = (\<lambda>c. \<lparr>middlewares = [], routes = [], mounts = [],
                      notFoundHandler = None, methodNotAllowedHandler = None\<rparr>),
         next_mux = 0\<rparr>\<rparr>"

definition request_to :: "string \<Rightarrow> string \<Rightarrow> request" where
  "request_to method path = \<lparr>Method_of = method, Path = path, Context = []\<rparr>"

text \<open>The handlers of the repository's tests: one that fails, one that answers, and
  an ErrorHandler that answers 400.\<close>

definition failing :: "string \<Rightarrow> unit Handler" where
  "failing msg = (\<lambda>ctx w r s. (Some (ErrorString msg), s))"

definition answering :: "nat \<Rightarrow> string \<Rightarrow> unit Handler" where
  "answering code body = (\<lambda>ctx w r s. (None, call_writer w [WriteHeader code, Write body] s))"

definition badRequest :: "unit ErrorHandler" where
  "badRequest w r err = call_writer w [WriteHeader 400]"

text \<open>The heap after \<^verbatim>\<open>r := New()\<close>: one router, at address 0.\<close>

definition served :: "unit heap" where
  "served = (case New [] empty_heap of Inl p \<Rightarrow> empty_heap | Inr (r, st) \<Rightarrow> st)"

definition mark :: "string \<Rightarrow> unit HandlerFunc" where
  "mark name = (\<lambda>w r. call_writer w [HeaderSet name ''1''])"

text \<open>
  \<^verbatim>\<open>r := New(); r.Get("/error", failing); r.SetErrorHandler(badRequest)\<close>, then a GET of
  \<^verbatim>\<open>/error\<close> served by \<open>r\<close>.
\<close>

definition late_override :: "panic + unit world" where
  "late_override =
     (case New [] empty_heap of
        Inl p \<Rightarrow> Inl p
      | Inr (r, st1) \<Rightarrow>
          (case Get r ''/error'' (failing ''test error'') st1 of
             Inl p \<Rightarrow> Inl p
           | Inr st2 \<Rightarrow>
               ServeHTTP r 0 (request_to ''GET'' ''/error'')
                 (SetErrorHandler r badRequest st2) empty_world))"


section \<open>Auxiliary facts\<close>

lemma own_locals [simp]: "locals (own f s) = locals s"
  by (simp add: own_def)

lemma assigning_locals [simp]:
  "locals (assigning err next w r t) err = fst (next (Context r) w r t)"
  by (simp add: assigning_def split: prod.split)

lemma run_std_assigning:
  "locals (run_std body (assigning err next) w r s) err =
     (case rev (invocations body (assigning err next) w r s) of
        [] \<Rightarrow> locals s err
      | (w', r', t) # _ \<Rightarrow> fst (next (Context r') w' r' t))"
proof (induction body arbitrary: s)
  case Return
  show ?case by simp
next
  case (Own f body)
  show ?case using Own.IH [of "own (f w r) s"] by (simp split: list.splits)
next
  case (CallNext arg body)
  obtain w' r' where a: "arg w r s = (w', r')" by (cases "arg w r s")
  show ?case
    using CallNext.IH [of "assigning err next w' r' s"] a
    by (simp split: list.splits prod.splits)
next
  case (Branch c body1 body2)
  show ?case using Branch.IH by (simp split: list.splits)
qed

lemma wrapped_around:
  "wrappedMiddleware r (around pre post) next eh w req s =
     post w req (next eh w req (pre w req s))"
  by (simp add: wrappedMiddleware_def around_def)

lemma foldr_wrapped_around:
  "foldr (wrappedMiddleware r) (map (\<lambda>(pre, post). around pre post) ps) endpoint eh w req s =
     nested ps (endpoint eh) w req s"
  by (induction ps arbitrary: s) (auto simp: wrapped_around)

lemma chi_chain_append:
  "chi_chain (ms @ ms') endpoint = chi_chain ms (chi_chain ms' endpoint)"
  by (induction ms) auto

lemma chi_chain_map: "chi_chain (map f ms) endpoint = foldr f ms endpoint"
  by (induction ms) auto

lemma routeHTTP_middlewares [simp]:
  "routeHTTP (m\<lparr>middlewares := ms\<rparr>) = routeHTTP m"
  by (simp add: routeHTTP_def cong: option.case_cong if_cong)

lemma named_option_simps [simp]:
  "named_option (Inl handler) = WithErrorHandler handler"
  "named_option (Inr b) = WithRouterBuilder b"
  by (simp_all add: named_option_def)

lemma apply_named:
  "apply_opts (map named_option xs) r st =
     Inr (st\<lparr>routers := (routers st)(r := (routers st r)
            \<lparr>errHandler := last_handler xs (errHandler (routers st r)),
             routerBuilder := last_builder xs (routerBuilder (routers st r))\<rparr>)\<rparr>)"
proof (induction xs arbitrary: st)
  case Nil
  show ?case by simp
next
  case (Cons x xs)
  show ?case
    by (cases x) (simp_all add: Cons.IH WithErrorHandler_def WithRouterBuilder_def cong: if_cong)
qed

text \<open>The per-method registrations are \<open>Method\<close> at their method.\<close>

lemma per_method_registrations:
  "Get r pattern h = Method r ''GET'' pattern h"
  "Post r pattern h = Method r ''POST'' pattern h"
  "Put r pattern h = Method r ''PUT'' pattern h"
  "Delete r pattern h = Method r ''DELETE'' pattern h"
  "Patch r pattern h = Method r ''PATCH'' pattern h"
  "Head r pattern h = Method r ''HEAD'' pattern h"
  "Options r pattern h = Method r ''OPTIONS'' pattern h"
  "Connect r pattern h = Method r ''CONNECT'' pattern h"
  "Trace r pattern h = Method r ''TRACE'' pattern h"
  by (simp_all add: Get_def Post_def Put_def Delete_def Patch_def Head_def Options_def
        Connect_def Trace_def Method_def)



text \<open>The router that \<open>New\<close> builds without options.\<close>

lemma served_chi: "chi (routers served 0) = Some 0"
  by (simp add: served_def New_def empty_heap_def defaultRouterBuilder_def chi_NewRouter_def)

lemma served_builder: "routerBuilder (routers served 0) = Some defaultRouterBuilder"
  by (simp add: served_def New_def empty_heap_def defaultRouterBuilder_def chi_NewRouter_def)



lemma served_middlewares: "middlewares (mux (chi_heap served) 0) = []"
  by (simp add: served_def New_def empty_heap_def defaultRouterBuilder_def chi_NewRouter_def)

section \<open>Properties of the adapter functions\<close>

text \<open>
  C8. For every conventional handler \<open>h\<close> and every context, writer, request and state,
  the Handler produced by \<open>StandardHandler h\<close> invokes \<open>h\<close> with the writer and the
  request (the state it leaves is the one \<open>h\<close> leaves) and returns the nil error.
\<close>

theorem StandardHandler_always_succeeds:
  "StandardHandler h c w r s = (None, h w r s)"
  by (simp add: StandardHandler_def)

text \<open>
  C7. For every error value, the calls that the default ErrorHandler makes on the writer
  read as status 500 and as a body that is exactly the error's message followed by a
  newline; what was written before stays as it was. On a writer that nothing was
  written to, that is the whole response.
\<close>

theorem defaultErrorHandler_response:
  "status_of (drop (length (writers s w)) (writers (defaultErrorHandler w r err s) w)) = 500
   \<and> body_of (drop (length (writers s w)) (writers (defaultErrorHandler w r err s) w)) =
       Error err @ [CHR 0x0A]
   \<and> take (length (writers s w)) (writers (defaultErrorHandler w r err s) w) = writers s w
   \<and> status_of (writers (defaultErrorHandler w r err (s\<lparr>writers := (writers s)(w := [])\<rparr>)) w)
       = 500
   \<and> body_of (writers (defaultErrorHandler w r err (s\<lparr>writers := (writers s)(w := [])\<rparr>)) w)
       = Error err @ [CHR 0x0A]"
  by (simp add: defaultErrorHandler_def http_Error_def call_writer_def
        StatusInternalServerError_def)

text \<open>
  C2. For every Handler run through \<open>adapt\<close> or \<open>AdaptHandler\<close>: when it returns nil, the
  state after the adapted handler is exactly the state the Handler left, whatever the
  ErrorHandler is (it is not invoked and the adapter writes nothing); when it returns an
  error, the state after is exactly that of one invocation of the ErrorHandler, with
  that error, on the state the Handler left.
\<close>

theorem adapter_error_path:
  "(h (Context req) w req s = (None, s') \<longrightarrow>
      adapt r h eh w req s = s' \<and> AdaptHandler h errH w req s = s')
   \<and> (h (Context req) w req s = (Some err, s') \<longrightarrow>
      adapt r h eh w req s = eh r w req err s' \<and>
      AdaptHandler h errH w req s = errH w req err s')"
  by (simp add: adapt_def AdaptHandler_def)

theorem adapter_error_path_witness:
  "adapt 0 (answering 200 ''ok'') (\<lambda>r. badRequest) 0 (request_to ''GET'' ''/test'') empty_world =
     call_writer 0 [WriteHeader 200, Write ''ok''] empty_world
   \<and> AdaptHandler (failing ''handler error'') badRequest 0 (request_to ''GET'' ''/test'') empty_world =
     badRequest 0 (request_to ''GET'' ''/test'') (ErrorString ''handler error'') empty_world"
proof -
  have ok: "answering 200 ''ok'' (Context (request_to ''GET'' ''/test'')) 0
              (request_to ''GET'' ''/test'') empty_world =
            (None, call_writer 0 [WriteHeader 200, Write ''ok''] empty_world)"
    by (simp add: answering_def)
  have bad: "failing ''handler error'' (Context (request_to ''GET'' ''/test'')) 0
               (request_to ''GET'' ''/test'') empty_world =
             (Some (ErrorString ''handler error''), empty_world)"
    by (simp add: failing_def)
  let ?req = "request_to ''GET'' ''/test''"
  have "adapt 0 (answering 200 ''ok'') (\<lambda>r. badRequest) 0 ?req empty_world =
          call_writer 0 [WriteHeader 200, Write ''ok''] empty_world"
    using ok
      adapter_error_path [where h = "answering 200 ''ok''" and req = ?req and w = 0
        and s = empty_world and s' = "call_writer 0 [WriteHeader 200, Write ''ok''] empty_world"
        and r = 0 and eh = "\<lambda>r. badRequest"]
    by blast
  moreover have "AdaptHandler (failing ''handler error'') badRequest 0 ?req empty_world =
          badRequest 0 ?req (ErrorString ''handler error'') empty_world"
    using bad
      adapter_error_path [where h = "failing ''handler error''" and req = ?req and w = 0
        and s = empty_world and s' = empty_world and err = "ErrorString ''handler error''"
        and errH = badRequest]
    by blast
  ultimately show ?thesis by (rule conjI)
qed

text \<open>
  C10. For every conventional middleware, given by what it does with a request, and every
  next Handler: the error returned by the Handler that \<open>AdaptMiddleware\<close> produces is the
  one returned by the last invocation of \<open>next\<close> during the request, and nil when
  \<open>next\<close> is never invoked, so a short-circuiting middleware is reported as success.
  The same holds for any function taken as the middleware whose effect on the request
  does not depend on the handler it is given and which leaves the adapter's variable
  alone: the adapted Handler returns nil.
\<close>

theorem AdaptMiddleware_returns_last_result:
  "fst (AdaptMiddleware (run_std body) next c w r s) =
     last_result next
       (invocations body (assigning (fresh s) next) w r
          (s\<lparr>locals := (locals s)(fresh s := None), fresh := Suc (fresh s)\<rparr>))
   \<and> (invocations body (assigning (fresh s) next) w r
          (s\<lparr>locals := (locals s)(fresh s := None), fresh := Suc (fresh s)\<rparr>) = []
        \<longrightarrow> fst (AdaptMiddleware (run_std body) next c w r s) = None)
   \<and> ((\<forall>k. stdMiddleware k w r
               (s\<lparr>locals := (locals s)(fresh s := None), fresh := Suc (fresh s)\<rparr>) =
             stdMiddleware (\<lambda>w r t. t) w r
               (s\<lparr>locals := (locals s)(fresh s := None), fresh := Suc (fresh s)\<rparr>))
        \<and> locals (stdMiddleware (\<lambda>w r t. t) w r
               (s\<lparr>locals := (locals s)(fresh s := None), fresh := Suc (fresh s)\<rparr>))
             (fresh s) = None
        \<longrightarrow> fst (AdaptMiddleware stdMiddleware next c w r s) = None)"
proof -
  let ?s1 = "s\<lparr>locals := (locals s)(fresh s := None), fresh := Suc (fresh s)\<rparr>"
  have "fst (AdaptMiddleware (run_std body) next c w r s) =
          locals (run_std body (assigning (fresh s) next) w r ?s1) (fresh s)"
    by (simp add: AdaptMiddleware_def Let_def assigning_def)
  also have "\<dots> = last_result next (invocations body (assigning (fresh s) next) w r ?s1)"
    by (simp add: run_std_assigning last_result_def split: list.splits)
  finally have trees:
    "fst (AdaptMiddleware (run_std body) next c w r s) =
       last_result next (invocations body (assigning (fresh s) next) w r ?s1)" .
  have ignoring: "fst (AdaptMiddleware stdMiddleware next c w r s) = None"
    if indep: "\<forall>k. stdMiddleware k w r ?s1 = stdMiddleware (\<lambda>w r t. t) w r ?s1"
      and frame: "locals (stdMiddleware (\<lambda>w r t. t) w r ?s1) (fresh s) = None"
  proof -
    have "fst (AdaptMiddleware stdMiddleware next c w r s) =
            locals (stdMiddleware (assigning (fresh s) next) w r ?s1) (fresh s)"
      by (simp add: AdaptMiddleware_def Let_def assigning_def)
    also have "stdMiddleware (assigning (fresh s) next) w r ?s1 =
                 stdMiddleware (\<lambda>w r t. t) w r ?s1"
      using indep by blast
    finally show ?thesis using frame by simp
  qed
  show ?thesis
  proof (intro conjI impI)
    show "fst (AdaptMiddleware (run_std body) next c w r s) =
            last_result next (invocations body (assigning (fresh s) next) w r ?s1)"
      by (rule trees)
  next
    assume "invocations body (assigning (fresh s) next) w r ?s1 = []"
    then show "fst (AdaptMiddleware (run_std body) next c w r s) = None"
      using trees by (simp add: last_result_def)
  next
    assume "(\<forall>k. stdMiddleware k w r ?s1 = stdMiddleware (\<lambda>w r t. t) w r ?s1)
            \<and> locals (stdMiddleware (\<lambda>w r t. t) w r ?s1) (fresh s) = None"
    then show "fst (AdaptMiddleware stdMiddleware next c w r s) = None"
      using ignoring by blast
  qed
qed

theorem AdaptMiddleware_returns_last_result_witness:
  "fst (AdaptMiddleware
          (run_std (Own (\<lambda>w r. call_writer w [WriteHeader 401]) Return))
          (failing ''handler error'') [] 0 (request_to ''GET'' ''/test'') empty_world) = None
   \<and> fst (AdaptMiddleware (\<lambda>next w r. call_writer w [WriteHeader 401])
          (failing ''handler error'') [] 0 (request_to ''GET'' ''/test'') empty_world) = None"
proof -
  let ?s1 = "empty_world\<lparr>locals := (locals empty_world)(fresh empty_world := None),
                         fresh := Suc (fresh empty_world)\<rparr>"
  let ?req = "request_to ''GET'' ''/test''"
  let ?m = "\<lambda>(next :: unit HandlerFunc) w (r :: request). call_writer w [WriteHeader 401]
              :: unit world \<Rightarrow> unit world"
  have none:
    "invocations (Own (\<lambda>w r. call_writer w [WriteHeader 401]) Return)
       (assigning (fresh empty_world) (failing ''handler error'')) 0 ?req ?s1 = []"
    by simp
  have ignores:
    "(\<forall>k. ?m k 0 ?req ?s1 = ?m (\<lambda>w r t. t) 0 ?req ?s1)
     \<and> locals (?m (\<lambda>w r t. t) 0 ?req ?s1) (fresh empty_world) = None"
    by (simp add: call_writer_def)
  have "fst (AdaptMiddleware
          (run_std (Own (\<lambda>w r. call_writer w [WriteHeader 401]) Return))
          (failing ''handler error'') [] 0 ?req empty_world) = None"
    using AdaptMiddleware_returns_last_result
      [where body = "Own (\<lambda>w r. call_writer w [WriteHeader 401]) Return"
         and s = empty_world and w = 0 and r = ?req and c = "[]"
         and ?next = "failing ''handler error''" and stdMiddleware = ?m]
      none
    by blast
  moreover have "fst (AdaptMiddleware ?m (failing ''handler error'') [] 0 ?req empty_world) = None"
    using AdaptMiddleware_returns_last_result
      [where body = Return
         and s = empty_world and w = 0 and r = ?req and c = "[]"
         and ?next = "failing ''handler error''" and stdMiddleware = ?m]
      ignores
    by blast
  ultimately show ?thesis by (rule conjI)
qed

section \<open>Properties of the router wrapper\<close>



text \<open>
  C4. For every list of middlewares given to \<open>Use\<close> on a router: the links are added
  after those already registered, the link at each position is the wrapper of the
  middleware at that position, and the handler of the mux applies them as nested
  decorators, the first registered outermost. For middlewares with pre-logic and
  post-logic the request therefore runs the pre-logic in registration order, the
  endpoint, and the post-logic in the reverse order.
\<close>

theorem Use_middleware_order:
  assumes "chi (routers st r) = Some c"
  shows "(\<exists>st'. Use r ms st = Inr st'
           \<and> middlewares (mux (chi_heap st') c) =
               middlewares (mux (chi_heap st) c) @ map (wrappedMiddleware r) ms
           \<and> chi_ServeHTTP (mux (chi_heap st') c) =
               chi_chain (middlewares (mux (chi_heap st) c))
                 (foldr (wrappedMiddleware r) ms (routeHTTP (mux (chi_heap st) c))))
         \<and> foldr (wrappedMiddleware r) (map (\<lambda>(pre, post). around pre post) ps)
             endpoint eh w req s = nested ps (endpoint eh) w req s"
  using assms
  by (simp add: Use_def on_chi_def chi_Use_def on_mux_def chi_ServeHTTP_def chi_chain_append
        chi_chain_map foldr_wrapped_around)

theorem Use_middleware_order_witness:
  "(\<exists>st'. Use 0 [around (mark ''A-pre'') (mark ''A-post''),
                    around (mark ''B-pre'') (mark ''B-post'')] served = Inr st'
           \<and> middlewares (mux (chi_heap st') 0) =
               middlewares (mux (chi_heap served) 0) @
               map (wrappedMiddleware 0)
                 [around (mark ''A-pre'') (mark ''A-post''),
                  around (mark ''B-pre'') (mark ''B-post'')]
           \<and> chi_ServeHTTP (mux (chi_heap st') 0) =
               chi_chain (middlewares (mux (chi_heap served) 0))
                 (foldr (wrappedMiddleware 0)
                    [around (mark ''A-pre'') (mark ''A-post''),
                     around (mark ''B-pre'') (mark ''B-post'')]
                    (routeHTTP (mux (chi_heap served) 0))))
   \<and> foldr (wrappedMiddleware 0)
       (map (\<lambda>(pre, post). around pre post)
          [(mark ''A-pre'', mark ''A-post''), (mark ''B-pre'', mark ''B-post'')])
       (adapt 0 (answering 200 ''ok'')) (\<lambda>r. badRequest) 0 (request_to ''GET'' ''/test'')
       empty_world =
     nested [(mark ''A-pre'', mark ''A-post''), (mark ''B-pre'', mark ''B-post'')]
       (adapt 0 (answering 200 ''ok'') (\<lambda>r. badRequest)) 0 (request_to ''GET'' ''/test'')
       empty_world"
  by (rule Use_middleware_order [OF served_chi])

text \<open>
  C6. For every sequence of the named options: \<open>New\<close> invokes one builder only, the one
  named by the last \<open>WithRouterBuilder\<close> of the sequence (the default builder when there
  is none), on the router library's state as it was before the call; the builders named
  by earlier options are not invoked. The new router holds the handler named by the last
  \<open>WithErrorHandler\<close> (the default handler when there is none). A last builder that is nil
  stops \<open>New\<close>.
\<close>

theorem New_last_builder_wins:
  "New (map named_option xs) st =
     (case last_builder xs (Some defaultRouterBuilder) of
        None \<Rightarrow> Inl NilFunctionCall
      | Some b \<Rightarrow>
          (case b (chi_heap st) of
             (c, cs) \<Rightarrow>
               Inr (next_router st,
                    st\<lparr>routers := (routers st)(next_router st :=
                           \<lparr>chi = Some c,
                            errHandler = last_handler xs defaultErrorHandler,
                            routerBuilder = Some b\<rparr>),
                       next_router := Suc (next_router st),
                       chi_heap := cs\<rparr>)))"
  by (simp add: New_def Let_def apply_named split: option.splits prod.splits)

text \<open>
  C9. For every router that has a builder: a call of \<open>Group\<close> or \<open>Route\<close> on the
  sub-router, made inside the callback of \<open>Group\<close> or \<open>Route\<close>, calls the nil
  \<open>routerBuilder\<close> of the sub-router and stops with the panic of a nil function call.
\<close>

theorem nested_subscope_panics:
  assumes "routerBuilder (routers st r) = Some b"
  shows "Group r (\<lambda>sub t. discard (Group sub fn t)) st = Inl NilFunctionCall
       \<and> Group r (\<lambda>sub t. Route sub p fn t) st = Inl NilFunctionCall
       \<and> Route r q (\<lambda>sub t. discard (Group sub fn t)) st = Inl NilFunctionCall
       \<and> Route r q (\<lambda>sub t. Route sub p fn t) st = Inl NilFunctionCall"
  using assms
  by (simp add: Group_def Route_def discard_def Let_def split: prod.splits)

theorem nested_subscope_panics_witness:
  "Group 0 (\<lambda>sub t. discard (Group sub (\<lambda>gr. Inr) t)) served = Inl NilFunctionCall"
  by (rule nested_subscope_panics [OF served_builder, THEN conjunct1])

text \<open>
  C1, as stated, fails: with a route registered while the default ErrorHandler was
  bound and \<open>SetErrorHandler\<close> called afterwards, the failing route is answered by the
  new handler (status 400, no body) and not by the one bound at registration (status 500
  and the message).
\<close>

theorem late_override_counterexample:
  "response_on 0 late_override = Some (400, [])
   \<and> response_on 0 (Inr (defaultErrorHandler 0 (request_to ''GET'' ''/error'')
                          (ErrorString ''test error'') empty_world)) =
       Some (500, ''test error'' @ [CHR 0x0A])"
  by (simp add: late_override_def New_def empty_heap_def defaultRouterBuilder_def
        chi_NewRouter_def Get_def on_chi_def chi_Method_def on_mux_def ServeHTTP_def
        SetErrorHandler_def chi_ServeHTTP_def routeHTTP_def request_to_def adapt_def
        failing_def errHandlers_def badRequest_def call_writer_def empty_world_def
        response_on_def defaultErrorHandler_def http_Error_def StatusInternalServerError_def)

text \<open>
  C1, amended. For every route registered on a router and every request for it on which
  the route's Handler fails: the dispatch to the route ends with one invocation, with the
  Handler's error, of the ErrorHandler that the router holds when the request is served.
  Without a later \<open>SetErrorHandler\<close> that is the handler held at registration; after
  \<open>SetErrorHandler\<close> it is the new handler. On a mux without middleware this is the whole
  of \<open>ServeHTTP\<close>.
\<close>

theorem errHandler_read_at_request_time:
  assumes "chi (routers st r) = Some c"
    and "Method_of req = method" and "Path req = pattern"
    and "h (Context req) w req s = (Some err, s')"
  shows "\<exists>st1. Method r method pattern h st = Inr st1
           \<and> routeHTTP (mux (chi_heap st1) c) (errHandlers st1) w req s =
               errHandler (routers st r) w req err s'
           \<and> routeHTTP (mux (chi_heap st1) c) (errHandlers (SetErrorHandler r handler st1))
               w req s = handler w req err s'
           \<and> (middlewares (mux (chi_heap st) c) = [] \<longrightarrow>
                ServeHTTP r w req st1 s = Inr (errHandler (routers st r) w req err s') \<and>
                ServeHTTP r w req (SetErrorHandler r handler st1) s =
                  Inr (handler w req err s'))"
  using assms
  by (auto simp: Method_def on_chi_def chi_Method_def on_mux_def ServeHTTP_def
        chi_ServeHTTP_def routeHTTP_def adapt_def errHandlers_def SetErrorHandler_def)

theorem errHandler_read_at_request_time_witness:
  "ServeHTTP 0 0 (request_to ''GET'' ''/error'')
     (SetErrorHandler 0 badRequest
        (case Method 0 ''GET'' ''/error'' (failing ''test error'') served of
           Inl p \<Rightarrow> served | Inr st1 \<Rightarrow> st1))
     empty_world =
   Inr (badRequest 0 (request_to ''GET'' ''/error'') (ErrorString ''test error'') empty_world)"
proof -
  let ?req = "request_to ''GET'' ''/error''"
  have m: "Method_of ?req = ''GET''"
    by (simp add: request_to_def)
  have p: "Path ?req = ''/error''"
    by (simp add: request_to_def)
  have f: "failing ''test error'' (Context ?req) 0 ?req empty_world =
           (Some (ErrorString ''test error''), empty_world)"
    by (simp add: failing_def)
  obtain st1 where
    reg: "Method 0 ''GET'' ''/error'' (failing ''test error'') served = Inr st1" and
    late: "middlewares (mux (chi_heap served) 0) = [] \<longrightarrow>
             ServeHTTP 0 0 ?req st1 empty_world =
               Inr (errHandler (routers served 0) 0 ?req (ErrorString ''test error'') empty_world) \<and>
             ServeHTTP 0 0 ?req (SetErrorHandler 0 badRequest st1) empty_world =
               Inr (badRequest 0 ?req (ErrorString ''test error'') empty_world)"
    using errHandler_read_at_request_time
      [where h = "failing ''test error''" and w = 0 and s = empty_world and req = ?req
         and err = "ErrorString ''test error''" and s' = empty_world
         and handler = badRequest, OF served_chi m p f]
    by blast
  from late served_middlewares reg show ?thesis by simp
qed




end
